theory Spec2Isabelle
  imports Complex_Main "HOL-Library.AList" "HOL-Library.Multiset" "HOL-Library.Log_Nat"
begin

section \<open>Python values, errors and the file system\<close>

text \<open>
  The wrapper is a Python 2 script. Every exception the modelled code can raise is a
  value of \<open>py_error\<close>; a function that can raise returns \<open>py_error + 'a\<close> with
  \<open>Inl\<close> the exception.
\<close>

datatype py_error =
  NameError | IndexError | KeyError | IOError | TypeError | ValueError | OverflowError

text \<open>
  The file system maps a path to what is stored there: a regular file with its contents,
  or a directory. \<open>os.path.exists\<close> holds of both; \<open>open\<close> succeeds for reading on
  a regular file only, and for writing only inside an existing directory.
\<close>

datatype node = File string | Directory

type_synonym filesystem = "string \<rightharpoonup> node"

definition newline :: char where
  "newline = CHR 0x0A"

definition dquote :: char where
  "dquote = CHR 0x22"

definition backslash :: char where
  "backslash = CHR 0x5C"

definition os_path_exists :: "filesystem \<Rightarrow> string \<Rightarrow> bool" where
  "os_path_exists fs p = (fs p \<noteq> None)"

text \<open>
  The functions of \<open>os\<close> and \<open>os.path\<close> that the program calls on path names are
  parameters of the model, collected in one record: \<open>os.path.join\<close> of two components,
  the first component of \<open>os.path.split\<close>, \<open>os.path.isdir\<close>, \<open>os.getcwd()\<close>,
  \<open>os.path.basename\<close> and the first component of \<open>os.path.splitext\<close>.
\<close>

record os_env =
  os_path_join :: "string \<Rightarrow> string \<Rightarrow> string"
  os_path_split_head :: "string \<Rightarrow> string"
  isdir :: "string \<Rightarrow> bool"
  getcwd :: string
  basename :: "string \<Rightarrow> string"
  splitext_root :: "string \<Rightarrow> string"

text \<open>Whitespace as \<open>str.strip()\<close> and the regular expression class \<open>\s\<close> see it.\<close>

definition isspace :: "char \<Rightarrow> bool" where
  "isspace c = (c = CHR '' '' \<or> c = CHR 0x09 \<or> c = CHR 0x0A \<or> c = CHR 0x0B
     \<or> c = CHR 0x0C \<or> c = CHR 0x0D)"

definition isdigit :: "char \<Rightarrow> bool" where
  "isdigit c = (c \<in> set ''0123456789'')"

definition py_strip :: "string \<Rightarrow> string" where
  "py_strip s = rev (dropWhile isspace (rev (dropWhile isspace s)))"

text \<open>\<open>s.split(sep, 1)\<close> for a one-character separator: at most one split, at the first
  occurrence.\<close>

definition py_split1 :: "char \<Rightarrow> string \<Rightarrow> string list" where
  "py_split1 sep s =
     (if sep \<in> set s
      then [takeWhile (\<lambda>c. c \<noteq> sep) s, tl (dropWhile (\<lambda>c. c \<noteq> sep) s)]
      else [s])"

text \<open>\<open>s.split(sep)\<close> for a one-character separator: every occurrence splits, empty
  fields are kept.\<close>

fun py_split :: "char \<Rightarrow> string \<Rightarrow> string list" where
  "py_split sep [] = [[]]"
| "py_split sep (c # cs) =
     (if c = sep then [] # py_split sep cs
      else (case py_split sep cs of
              [] \<Rightarrow> [[c]]
            | w # ws \<Rightarrow> (c # w) # ws))"

text \<open>Iterating over an open text file yields its lines, each with its terminating
  newline; a last line without one is yielded as it is.\<close>

fun file_lines :: "string \<Rightarrow> string list" where
  "file_lines [] = []"
| "file_lines (c # cs) =
     (if c = newline then [c] # file_lines cs
      else (case file_lines cs of
              [] \<Rightarrow> [[c]]
            | l # ls \<Rightarrow> (c # l) # ls))"

section \<open>ObjectCache\<close>

record ObjectCache =
  dir :: string
  directmode :: bool

definition cacheEntryDir :: "os_env \<Rightarrow> ObjectCache \<Rightarrow> string \<Rightarrow> string" where
  "cacheEntryDir env c key = os_path_join env (os_path_join env (dir c) (take 2 key)) key"

definition cachedObjectName :: "os_env \<Rightarrow> ObjectCache \<Rightarrow> string \<Rightarrow> string" where
  "cachedObjectName env c key = os_path_join env (cacheEntryDir env c key) ''object''"

definition cachedCompilerManifestName :: "os_env \<Rightarrow> ObjectCache \<Rightarrow> string \<Rightarrow> string" where
  "cachedCompilerManifestName env c key = os_path_join env (cacheEntryDir env c key) ''manifest.txt''"

definition cachedManifestName :: "os_env \<Rightarrow> ObjectCache \<Rightarrow> string \<Rightarrow> string" where
  "cachedManifestName env c key = cachedCompilerManifestName env c key"

definition hasManifest :: "os_env \<Rightarrow> ObjectCache \<Rightarrow> filesystem \<Rightarrow> string \<Rightarrow> bool" where
  "hasManifest env c fs key = os_path_exists fs (cachedManifestName env c key)"

definition hasEntry :: "os_env \<Rightarrow> ObjectCache \<Rightarrow> filesystem \<Rightarrow> string \<Rightarrow> bool" where
  "hasEntry env c fs key = os_path_exists fs (cachedObjectName env c key)"

text \<open>
  \<open>hashFile\<close> feeds every line of the file to MD5 and returns the hex digest, so the
  digest is that of the whole contents. The digest function is a parameter \<open>md5\<close>.
  Opening a path that is not a regular file raises.
\<close>

definition hashFile :: "(string \<Rightarrow> string) \<Rightarrow> filesystem \<Rightarrow> string \<Rightarrow> py_error + string" where
  "hashFile md5 fs filepath =
     (case fs filepath of
        Some (File contents) \<Rightarrow> Inr (md5 contents)
      | _ \<Rightarrow> Inl IOError)"

subsection \<open>Manifest I/O\<close>

text \<open>
  A Python dict is an association list with distinct keys: \<open>items[k] = v\<close> is
  \<open>AList.update k v items\<close>. The order of iteration of a Python 2 dict is not specified;
  the list's order stands for it.
\<close>

fun getManifest_lines ::
  "(string \<times> string) list \<Rightarrow> string list \<Rightarrow> py_error + (string \<times> string) list" where
  "getManifest_lines items [] = Inr items"
| "getManifest_lines items (line # rest) =
     (case py_split1 (CHR '' '') (py_strip line) of
        [t0, t1] \<Rightarrow> getManifest_lines (AList.update t1 t0 items) rest
      | _ \<Rightarrow> Inl IndexError)"

definition getManifest ::
  "os_env \<Rightarrow> ObjectCache \<Rightarrow> filesystem \<Rightarrow> string \<Rightarrow> py_error + (string \<times> string) list" where
  "getManifest env c fs key =
     (case fs (cachedManifestName env c key) of
        Some (File contents) \<Rightarrow> getManifest_lines [] (file_lines contents)
      | _ \<Rightarrow> Inl IOError)"

text \<open>\<open>writeManifest\<close> writes \<open>d[0] + " " + d[1]\<close> for every record \<open>d\<close>, and nothing
  else, to the manifest file of the entry.\<close>

definition manifest_text :: "(string \<times> string) list \<Rightarrow> string" where
  "manifest_text data = concat (map (\<lambda>d. fst d @ '' '' @ snd d) data)"

definition writeManifest ::
  "os_env \<Rightarrow> ObjectCache \<Rightarrow> filesystem \<Rightarrow> string \<Rightarrow> (string \<times> string) list \<Rightarrow> py_error + filesystem" where
  "writeManifest env c fs key data =
     (if fs (cacheEntryDir env c key) = Some Directory
      then Inr (fs(cachedManifestName env c key \<mapsto> File (manifest_text data)))
      else Inl IOError)"

subsection \<open>Hit checks\<close>

fun checkManifest_loop ::
  "(string \<Rightarrow> string) \<Rightarrow> filesystem \<Rightarrow> (string \<times> string) list \<Rightarrow> py_error + bool" where
  "checkManifest_loop md5 fs [] = Inr True"
| "checkManifest_loop md5 fs ((fn, expected) # rest) =
     (if \<not> os_path_exists fs fn then Inr False
      else (case hashFile md5 fs fn of
              Inl e \<Rightarrow> Inl e
            | Inr check \<Rightarrow>
                if check \<noteq> expected then Inr False
                else checkManifest_loop md5 fs rest))"

definition checkManifest ::
  "os_env \<Rightarrow> ObjectCache \<Rightarrow> filesystem \<Rightarrow> (string \<Rightarrow> string) \<Rightarrow> string \<Rightarrow> string list \<Rightarrow> string
     \<Rightarrow> py_error + bool" where
  "checkManifest env c fs md5 compiler argv hashkey =
     (if hasManifest env c fs hashkey
      then (case getManifest env c fs hashkey of
              Inl e \<Rightarrow> Inl e
            | Inr md \<Rightarrow> checkManifest_loop md5 fs md)
      else Inr False)"

text \<open>
  The names bound at module level when the dispatcher runs: the imports, the classes,
  the functions and the script's own variables. A free name in a method body that is
  neither a local nor one of these (nor a builtin) raises \<open>NameError\<close> when evaluated.
\<close>

definition module_names :: "string list" where
  "module_names =
     [''windll'', ''wintypes'', ''codecs'', ''defaultdict'', ''hashlib'', ''json'', ''os'',
      ''copyfile'', ''rmtree'', ''subprocess'', ''Popen'', ''PIPE'', ''STDOUT'', ''sys'',
      ''multiprocessing'', ''re'', ''shlex'',
      ''ObjectCacheLockException'', ''ObjectCacheLock'', ''ObjectCache'',
      ''PersistentJSONDict'', ''Configuration'', ''CacheStatistics'', ''AnalysisResult'',
      ''copyOrLink'', ''findCompilerBinary'', ''printTraceStatement'',
      ''expandCommandLine'', ''parseCommandLine'', ''analyzeCommandLine'',
      ''invokeRealCompiler'', ''waitForAnyProcess'', ''jobCount'', ''runJobs'',
      ''reinvokePerSourceFile'', ''printStatistics'', ''resetStatistics'',
      ''compiler'', ''cmdLine'', ''analysisResult'', ''sourceFile'', ''outputFile'',
      ''cache'', ''stats'', ''cachekey'']"

definition global_name :: "string \<Rightarrow> py_error + unit" where
  "global_name n = (if n \<in> set module_names then Inr () else Inl NameError)"

text \<open>
  \<open>hasHit\<close>: in direct mode the manifest check; otherwise the body evaluates the free
  name \<open>hasEntry\<close> (not the attribute \<open>self.hasEntry\<close>) and calls it.
\<close>

definition hasHit ::
  "os_env \<Rightarrow> ObjectCache \<Rightarrow> filesystem \<Rightarrow> (string \<Rightarrow> string) \<Rightarrow> string \<Rightarrow> string list \<Rightarrow> string
     \<Rightarrow> py_error + bool" where
  "hasHit env c fs md5 compilerBinary commandLine hashkey =
     (if directmode c then checkManifest env c fs md5 compilerBinary commandLine hashkey
      else (case global_name ''hasEntry'' of
              Inl e \<Rightarrow> Inl e
            | Inr _ \<Rightarrow> Inr (hasEntry env c fs hashkey)))"

section \<open>PersistentJSONDict, Configuration and CacheStatistics\<close>

text \<open>
  The JSON documents on disk: a file name is mapped to the dictionary stored in it. A
  file that is absent or does not parse has no entry (\<open>json.load\<close> raises and the
  constructor keeps the empty dictionary). The values the wrapper stores are integers.
\<close>

type_synonym json_files = "string \<rightharpoonup> (string \<rightharpoonup> int)"

record PersistentJSONDict =
  dirty :: bool
  dict :: "string \<rightharpoonup> int"
  fileName :: string

definition PersistentJSONDict_init :: "string \<Rightarrow> json_files \<Rightarrow> PersistentJSONDict" where
  "PersistentJSONDict_init name docs =
     \<lparr>dirty = False,
      dict = (case docs name of None \<Rightarrow> Map.empty | Some d \<Rightarrow> d),
      fileName = name\<rparr>"


definition setitem :: "PersistentJSONDict \<Rightarrow> string \<Rightarrow> int \<Rightarrow> PersistentJSONDict" where
  "setitem d key v = d\<lparr>dict := (dict d)(key \<mapsto> v), dirty := True\<rparr>"

definition getitem :: "PersistentJSONDict \<Rightarrow> string \<Rightarrow> py_error + int" where
  "getitem d key = (case dict d key of None \<Rightarrow> Inl KeyError | Some v \<Rightarrow> Inr v)"

definition contains :: "PersistentJSONDict \<Rightarrow> string \<Rightarrow> bool" where
  "contains d key = (dict d key \<noteq> None)"


definition materialize :: "PersistentJSONDict \<Rightarrow> string \<times> int \<Rightarrow> PersistentJSONDict" where
  "materialize d kv = (if \<not> contains d (fst kv) then setitem d (fst kv) (snd kv) else d)"

definition defaultValues :: "(string \<times> int) list" where
  "defaultValues = [(''MaximumCacheSize'', 1024 * 1024 * 1000)]"

definition Configuration_init :: "os_env \<Rightarrow> ObjectCache \<Rightarrow> json_files \<Rightarrow> PersistentJSONDict" where
  "Configuration_init env c docs =
     foldl materialize (PersistentJSONDict_init (os_path_join env (dir c) ''config.txt'') docs)
       defaultValues"

definition maximumCacheSize :: "PersistentJSONDict \<Rightarrow> py_error + int" where
  "maximumCacheSize cfg = getitem cfg ''MaximumCacheSize''"

definition setMaximumCacheSize :: "PersistentJSONDict \<Rightarrow> int \<Rightarrow> PersistentJSONDict" where
  "setMaximumCacheSize cfg sz = setitem cfg ''MaximumCacheSize'' sz"

definition stats_keys :: "string list" where
  "stats_keys =
     [''CallsWithoutSourceFile'', ''CallsWithMultipleSourceFiles'', ''CallsWithPch'',
      ''CallsForLinking'', ''CacheEntries'', ''CacheSize'', ''CacheHits'', ''CacheMisses'']"

definition CacheStatistics_init :: "os_env \<Rightarrow> ObjectCache \<Rightarrow> json_files \<Rightarrow> PersistentJSONDict" where
  "CacheStatistics_init env c docs =
     foldl (\<lambda>s k. materialize s (k, 0))
       (PersistentJSONDict_init (os_path_join env (dir c) ''stats.txt'') docs) stats_keys"





definition currentCacheSize :: "PersistentJSONDict \<Rightarrow> py_error + int" where
  "currentCacheSize s = getitem s ''CacheSize''"

definition setCacheSize :: "PersistentJSONDict \<Rightarrow> int \<Rightarrow> PersistentJSONDict" where
  "setCacheSize s sz = setitem s ''CacheSize'' sz"

section \<open>Eviction\<close>

text \<open>
  What \<open>os.walk\<close> over the cache directory yields: one record per directory, with the
  names of the files in it and, for a directory that holds a file \<open>object\<close>, the
  \<open>os.stat\<close> result of that file. \<open>rmtree\<close> of a directory takes its record out; the
  entry directories of the cache layout are leaves, so no other record goes with it.
\<close>

record stat_result =
  st_atime :: rat
  st_size :: nat

record walked =
  root :: string
  files :: "string list"
  object_stat :: stat_result

definition rmtree :: "string \<Rightarrow> walked list \<Rightarrow> walked list" where
  "rmtree d w = filter (\<lambda>e. root e \<noteq> d) w"

subsection \<open>The float product\<close>

text \<open>
  \<open>maximumSize * 0.9\<close> converts the integer to a double and multiplies two doubles. A
  double has 53 significant bits; conversion and product are rounded to the nearest
  double, a tie to the one with the even significand. \<open>round53\<close> rounds a non-negative
  integer so, with no bound on the exponent.
\<close>

definition round53 :: "int \<Rightarrow> int" where
  "round53 n =
     (if bitlen n \<le> 53 then n
      else (let s = nat (bitlen n - 53); q = n div 2 ^ s; r = n mod 2 ^ s
            in (if 2 ^ s < 2 * r \<or> (2 * r = 2 ^ s \<and> odd q) then q + 1 else q) * 2 ^ s))"

definition round_double :: "int \<Rightarrow> int" where
  "round_double n = sgn n * round53 \<bar>n\<bar>"

text \<open>The conversion of a Python integer to a float gives the nearest double, an integer
  itself, and raises \<open>OverflowError\<close> when that is \<open>2^1024\<close> or more in magnitude.\<close>

definition float_of_int :: "int \<Rightarrow> py_error + int" where
  "float_of_int n =
     (if 2 ^ 1024 \<le> \<bar>round_double n\<bar> then Inl OverflowError else Inr (round_double n))"

text \<open>
  The double \<open>0.9\<close> is \<open>8106479329266893 / 2^53\<close>. The product of a double \<open>f\<close> that is
  an integer with it is \<open>f \<times> 8106479329266893 / 2^53\<close> rounded to 53 significant bits;
  the division by \<open>2^53\<close> is exact, the product being zero or at least \<open>0.9\<close> and below
  \<open>2^1024\<close> in magnitude. The result is given as the rational number the double is.
\<close>

definition times_09 :: "int \<Rightarrow> rat" where
  "times_09 f = of_int (round_double (f * 8106479329266893)) / 2 ^ 53"

subsection \<open>clean\<close>

definition clean_objectInfos :: "os_env \<Rightarrow> walked list \<Rightarrow> (stat_result \<times> string) list" where
  "clean_objectInfos env w =
     map (\<lambda>e. (object_stat e, os_path_join env (root e) ''object''))
       (filter (\<lambda>e. ''object'' \<in> set (files e)) w)"

text \<open>The comparison of the integer \<open>currentSize\<close> with the float is exact in Python; the
  float is here the rational it denotes.\<close>

fun clean_loop ::
  "os_env \<Rightarrow> rat \<Rightarrow> (stat_result \<times> string) list \<Rightarrow> walked list \<Rightarrow> int
     \<Rightarrow> walked list \<times> int" where
  "clean_loop env effectiveMaximumSize [] w currentSize = (w, currentSize)"
| "clean_loop env effectiveMaximumSize ((stat, fn) # rest) w currentSize =
     (let w' = rmtree (os_path_split_head env fn) w;
          currentSize' = currentSize - int (st_size stat)
      in if of_int currentSize' < effectiveMaximumSize then (w', currentSize')
         else clean_loop env effectiveMaximumSize rest w' currentSize')"

text \<open>\<open>clean\<close>. \<open>list.sort\<close> is stable, as \<open>sort_key\<close> is.\<close>

definition clean ::
  "os_env \<Rightarrow> walked list \<Rightarrow> PersistentJSONDict \<Rightarrow> int
     \<Rightarrow> py_error + (walked list \<times> PersistentJSONDict)" where
  "clean env w stats maximumSize =
     (case currentCacheSize stats of
        Inl e \<Rightarrow> Inl e
      | Inr currentSize \<Rightarrow>
          if currentSize < maximumSize then Inr (w, stats)
          else
            (case float_of_int maximumSize of
               Inl e \<Rightarrow> Inl e
             | Inr f \<Rightarrow>
                 (let effectiveMaximumSize = times_09 f;
                      objectInfos = sort_key (\<lambda>t. st_atime (fst t)) (clean_objectInfos env w);
                      r = clean_loop env effectiveMaximumSize objectInfos w currentSize
                  in Inr (fst r, setCacheSize stats (snd r)))))"

text \<open>The entries of the store (the directories that hold an object file) and the
  total size of their object files, for stating the properties of \<open>clean\<close>.\<close>

definition object_entries :: "walked list \<Rightarrow> walked list" where
  "object_entries w = filter (\<lambda>e. ''object'' \<in> set (files e)) w"

definition total_object_size :: "walked list \<Rightarrow> int" where
  "total_object_size w = sum_list (map (\<lambda>e. int (st_size (object_stat e))) (object_entries w))"

text \<open>What the loop reads of an entry, and the size of its object file.\<close>

definition entry_info :: "os_env \<Rightarrow> walked \<Rightarrow> stat_result \<times> string" where
  "entry_info env e = (object_stat e, os_path_join env (root e) ''object'')"

definition entry_size :: "walked \<Rightarrow> int" where
  "entry_size e = int (st_size (object_stat e))"

section \<open>Command line analysis\<close>

definition optionsWithParameter :: "string list" where
  "optionsWithParameter =
     [''Ob'', ''Gs'', ''Fa'', ''Fd'', ''Fm'',
      ''Fp'', ''FR'', ''doc'', ''FA'', ''Fe'',
      ''Fo'', ''Fr'', ''AI'', ''FI'', ''FU'',
      ''D'', ''U'', ''I'', ''Zp'', ''vm'',
      ''MP'', ''Tc'', ''V'', ''wd'', ''wo'',
      ''W'', ''Yc'', ''Yl'', ''Tp'', ''we'',
      ''Yu'', ''Zm'', ''F'']"

text \<open>\<open>options\<close> is a \<open>defaultdict(list)\<close>: \<open>options[key].append(v)\<close> starts from
  the empty list when the key is new.\<close>

type_synonym options = "string \<rightharpoonup> string list"

definition append_value :: "options \<Rightarrow> string \<Rightarrow> string \<Rightarrow> options" where
  "append_value opts key v = opts(key \<mapsto> (case opts key of None \<Rightarrow> [] | Some vs \<Rightarrow> vs) @ [v])"

text \<open>
  The loop of \<open>parseCommandLine\<close> over the arguments from index \<open>i\<close> on. \<open>arg[0]\<close> of an
  empty argument and \<open>cmdline[i+1]\<close> past the last argument raise \<open>IndexError\<close>.
\<close>

fun parseCommandLine_loop ::
  "options \<Rightarrow> string \<Rightarrow> string list \<Rightarrow> string list
     \<Rightarrow> py_error + (options \<times> string \<times> string list)" where
  "parseCommandLine_loop opts responseFile sourceFiles [] =
     Inr (opts, responseFile, sourceFiles)"
| "parseCommandLine_loop opts responseFile sourceFiles (arg # rest) =
     (case arg of
        [] \<Rightarrow> Inl IndexError
      | a0 # arg1 \<Rightarrow>
          if a0 = CHR ''/'' \<or> a0 = CHR ''-'' then
            (case find (\<lambda>opt. take (length opt) arg1 = opt) optionsWithParameter of
               Some opt \<Rightarrow>
                 if length arg > length opt + 1
                 then parseCommandLine_loop
                        (append_value opts opt (drop (length opt + 1) arg))
                        responseFile sourceFiles rest
                 else (case rest of
                         [] \<Rightarrow> Inl IndexError
                       | val # rest' \<Rightarrow>
                           parseCommandLine_loop (append_value opts opt val)
                             responseFile sourceFiles rest')
             | None \<Rightarrow>
                 parseCommandLine_loop (opts(arg1 \<mapsto> [])) responseFile sourceFiles rest)
          else if a0 = CHR ''@'' then
            parseCommandLine_loop opts arg1 sourceFiles rest
          else
            parseCommandLine_loop opts responseFile (sourceFiles @ [arg]) rest)"

text \<open>The arguments for which the loop takes the next token as the value: an option
  with a parameter and nothing after its name.\<close>

definition bare_parametrised :: "string \<Rightarrow> bool" where
  "bare_parametrised arg =
     (case arg of
        [] \<Rightarrow> False
      | a0 # arg1 \<Rightarrow>
          (a0 = CHR ''/'' \<or> a0 = CHR ''-'') \<and>
          (case find (\<lambda>opt. take (length opt) arg1 = opt) optionsWithParameter of
             None \<Rightarrow> False
           | Some opt \<Rightarrow> \<not> length arg > length opt + 1))"

definition parseCommandLine ::
  "string list \<Rightarrow> py_error + (options \<times> string \<times> string list)" where
  "parseCommandLine cmdline = parseCommandLine_loop Map.empty [] [] cmdline"

datatype AnalysisResult =
  Ok | NoSourceFile | MultipleSourceFilesSimple | MultipleSourceFilesComplex
  | CalledForLink | CalledWithPch | ExternalDebugInfo

text \<open>The second component of the result of \<open>analyzeCommandLine\<close>: \<open>None\<close>, the list of
  source files, or the one source file.\<close>

datatype analysed_source = NoSource | SourceList "string list" | SourceFile string

definition strip_quotes :: "string \<Rightarrow> string" where
  "strip_quotes outputFile =
     (if outputFile \<noteq> [] \<and> hd outputFile = dquote \<and> last outputFile = dquote
      then butlast (tl outputFile) else outputFile)"

definition analyzeCommandLine ::
  "os_env \<Rightarrow> string list \<Rightarrow> py_error + (AnalysisResult \<times> analysed_source \<times> string option)" where
  "analyzeCommandLine env cmdline =
     (case parseCommandLine cmdline of
        Inl e \<Rightarrow> Inl e
      | Inr (opts, responseFile, sourceFiles0) \<Rightarrow>
          if opts ''Zi'' \<noteq> None then Inr (ExternalDebugInfo, NoSource, None)
          else if opts ''Yu'' \<noteq> None then Inr (CalledWithPch, NoSource, None)
          else
            (let sourceFiles1 = (case opts ''Tp'' of None \<Rightarrow> sourceFiles0
                                 | Some vs \<Rightarrow> sourceFiles0 @ vs);
                 sourceFiles = (case opts ''Tc'' of None \<Rightarrow> sourceFiles1
                                | Some vs \<Rightarrow> sourceFiles1 @ vs);
                 compl = (opts ''Tp'' \<noteq> None \<or> opts ''Tc'' \<noteq> None)
             in if opts ''link'' \<noteq> None \<or> opts ''c'' = None
                then Inr (CalledForLink, NoSource, None)
                else if length sourceFiles = 0 then Inr (NoSourceFile, NoSource, None)
                else if length sourceFiles > 1 then
                  (if compl then Inr (MultipleSourceFilesComplex, NoSource, None)
                   else Inr (MultipleSourceFilesSimple, SourceList sourceFiles, None))
                else
                  (let objName = splitext_root env (basename env (hd sourceFiles)) @ ''.obj''
                   in case opts ''Fo'' of
                        Some [] \<Rightarrow> Inl IndexError
                      | Some (outputFile # _) \<Rightarrow>
                          Inr (Ok, SourceFile (hd sourceFiles),
                               Some (strip_quotes
                                 (if isdir env outputFile then os_path_join env outputFile objName
                                  else outputFile)))
                      | None \<Rightarrow>
                          Inr (Ok, SourceFile (hd sourceFiles),
                               Some (strip_quotes (os_path_join env (getcwd env) objName))))))"

section \<open>Job count\<close>

text \<open>\<open>re.search(r'^/MP\d+$', switch)\<close>: the switch is \<open>/MP\<close>, then one or more
  digits, then the end of the string or a single newline that ends it.\<close>

definition mp_switch_match :: "string \<Rightarrow> bool" where
  "mp_switch_match switch =
     (take 3 switch = ''/MP'' \<and>
      takeWhile isdigit (drop 3 switch) \<noteq> [] \<and>
      (dropWhile isdigit (drop 3 switch) = [] \<or>
       dropWhile isdigit (drop 3 switch) = [newline]))"

definition digits_value :: "string \<Rightarrow> int" where
  "digits_value ds = foldl (\<lambda>n c. 10 * n + (int (of_char c) - 48)) 0 ds"

text \<open>\<open>int(s)\<close>: surrounding whitespace is dropped, a sign is allowed, the rest must be
  decimal digits.\<close>

definition py_int :: "string \<Rightarrow> py_error + int" where
  "py_int s =
     (let t = py_strip s;
          neg = (t \<noteq> [] \<and> hd t = CHR ''-'');
          ds = (if t \<noteq> [] \<and> (hd t = CHR ''-'' \<or> hd t = CHR ''+'') then tl t else t)
      in if ds \<noteq> [] \<and> list_all isdigit ds
         then Inr (if neg then - digits_value ds else digits_value ds)
         else Inl ValueError)"

text \<open>\<open>jobCount\<close>: \<open>environ_CL\<close> is the value of the environment variable \<open>CL\<close> when it
  is set, \<open>cpu_count\<close> what \<open>multiprocessing.cpu_count()\<close> returns (\<open>None\<close> when it
  raises).\<close>

definition jobCount :: "string option \<Rightarrow> nat option \<Rightarrow> string list \<Rightarrow> py_error + int" where
  "jobCount environ_CL cpu_count cmdLine =
     (let switches = (case environ_CL of None \<Rightarrow> [] | Some v \<Rightarrow> py_split (CHR '' '') v)
                       @ cmdLine;
          mp_switch = filter mp_switch_match switches
      in if length mp_switch = 0 then Inr 1
         else
           (let count = drop 3 (last mp_switch)
            in if count \<noteq> [] then py_int count
               else (case cpu_count of Some n \<Rightarrow> Inr (int n) | None \<Rightarrow> Inr 2)))"

section \<open>Include discovery and the miss path's manifest\<close>

text \<open>\<open>re_ldirective.match(l)\<close> for the pattern \<open>^#line\s+[\d]+\s+"([^"]+)"\<close>: the
  group when the line starts as the pattern says, \<open>None\<close> otherwise. The classes that
  follow one another are disjoint, so the greedy match is the only one.\<close>

definition ldirective_match :: "string \<Rightarrow> string option" where
  "ldirective_match l =
     (let r1 = drop 5 l;
          r2 = dropWhile isspace r1;
          r3 = dropWhile isdigit r2;
          r4 = dropWhile isspace r3;
          name = takeWhile (\<lambda>c. c \<noteq> dquote) (tl r4)
      in if take 5 l = ''#line'' \<and> takeWhile isspace r1 \<noteq> [] \<and> takeWhile isdigit r2 \<noteq> []
            \<and> takeWhile isspace r3 \<noteq> [] \<and> r4 \<noteq> [] \<and> hd r4 = dquote \<and> name \<noteq> []
            \<and> dropWhile (\<lambda>c. c \<noteq> dquote) (tl r4) \<noteq> []
         then Some name else None)"

text \<open>The elements of the Python list \<open>files\<close>: a string, or a tuple of two strings.\<close>

datatype py_item = Str string | Tuple string string

fun hash_each ::
  "(string \<Rightarrow> string) \<Rightarrow> filesystem \<Rightarrow> string list \<Rightarrow> py_error + py_item list" where
  "hash_each md5 fs [] = Inr []"
| "hash_each md5 fs (f # rest) =
     (case hashFile md5 fs f of
        Inl e \<Rightarrow> Inl e
      | Inr h \<Rightarrow>
          (case hash_each md5 fs rest of
             Inl e \<Rightarrow> Inl e
           | Inr items \<Rightarrow> Inr (Tuple h f # items)))"

text \<open>
  \<open>getDirectIncludeFiles\<close>. \<open>popen\<close> gives the standard output of the process run with
  a command line, \<open>abspath\<close> is \<open>os.path.abspath\<close>. The first loop appends the path of
  every \<open>#line\<close> directive to \<open>files\<close>; the second iterates over \<open>set(files)\<close> (here in
  the order of \<open>remdups\<close>) and appends a tuple to the same list \<open>files\<close>.
\<close>

definition getDirectIncludeFiles ::
  "(string list \<Rightarrow> string) \<Rightarrow> (string \<Rightarrow> string) \<Rightarrow> (string \<Rightarrow> string) \<Rightarrow> filesystem
     \<Rightarrow> string \<Rightarrow> string list \<Rightarrow> py_error + py_item list" where
  "getDirectIncludeFiles popen abspath md5 fs compilerBinary commandLine =
     (let ppcmd = [compilerBinary, ''/E'']
                    @ filter (\<lambda>arg. \<not> (arg \<in> set [''-c'', ''/c''])) commandLine;
          preprocessedSourceCode = popen ppcmd;
          files = map abspath
                    (List.map_filter ldirective_match (py_split newline preprocessedSourceCode))
      in case hash_each md5 fs (remdups files) of
           Inl e \<Rightarrow> Inl e
         | Inr tuples \<Rightarrow> Inr (map Str files @ tuples))"

text \<open>\<open>hashFile\<close> applied to an element of that list: \<open>open\<close> of a tuple raises
  \<open>TypeError\<close>.\<close>

definition hashFile_item ::
  "(string \<Rightarrow> string) \<Rightarrow> filesystem \<Rightarrow> py_item \<Rightarrow> py_error + string" where
  "hashFile_item md5 fs item =
     (case item of Str filepath \<Rightarrow> hashFile md5 fs filepath | Tuple _ _ \<Rightarrow> Inl TypeError)"

text \<open>The loop of the miss path that builds the manifest \<open>m\<close> from \<open>includefiles\<close>.\<close>

fun main_manifest ::
  "(string \<Rightarrow> string) \<Rightarrow> filesystem \<Rightarrow> py_item list \<Rightarrow> py_error + (string \<times> py_item) list" where
  "main_manifest md5 fs [] = Inr []"
| "main_manifest md5 fs (fn # rest) =
     (case hashFile_item md5 fs fn of
        Inl e \<Rightarrow> Inl e
      | Inr h \<Rightarrow>
          (case main_manifest md5 fs rest of
             Inl e \<Rightarrow> Inl e
           | Inr m \<Rightarrow> Inr ((h, fn) # m)))"

section \<open>The dispatcher on an invocation that cannot be cached\<close>




section \<open>Inputs of the examples\<close>

definition example_cache :: ObjectCache where
  "example_cache = \<lparr>dir = ''cache'', directmode = True\<rparr>"

text \<open>The functions on path names, on the names of the examples (relative names with no
  drive and no separator at the end): \<open>os.path.join\<close> puts a backslash between the two
  components, \<open>os.path.split\<close> cuts at the last backslash; there is no directory to
  compile into, and source files are named without a directory.\<close>

definition example_env :: os_env where
  "example_env =
     \<lparr>os_path_join = (\<lambda>a b. a @ [backslash] @ b),
      os_path_split_head = (\<lambda>p. rev (drop 1 (dropWhile (\<lambda>c. c \<noteq> backslash) (rev p)))),
      isdir = (\<lambda>p. False), getcwd = ''C:'', basename = (\<lambda>p. p),
      splitext_root = takeWhile (\<lambda>c. c \<noteq> CHR ''.'')\<rparr>"

text \<open>MD5 on the only contents the examples hash, the empty file; the value on other
  contents plays no role.\<close>

definition example_md5 :: "string \<Rightarrow> string" where
  "example_md5 contents =
     (if contents = [] then ''d41d8cd98f00b204e9800998ecf8427e''
      else ''00000000000000000000000000000000'')"

text \<open>A file system with the directory of the entry \<open>ab12\<close> and two empty headers.\<close>

definition example_fs :: filesystem where
  "example_fs =
     [cacheEntryDir example_env example_cache ''ab12'' \<mapsto> Directory,
      ''a.h'' \<mapsto> File [], ''b.h'' \<mapsto> File []]"

text \<open>The manifest of the two headers, each with the digest of its contents.\<close>

definition example_manifest :: "(string \<times> string) list" where
  "example_manifest =
     [(''d41d8cd98f00b204e9800998ecf8427e'', ''a.h''),
      (''d41d8cd98f00b204e9800998ecf8427e'', ''b.h'')]"

text \<open>The file system after \<open>writeManifest\<close> of that manifest for the entry \<open>ab12\<close>.\<close>

definition example_fs_written :: filesystem where
  "example_fs_written =
     example_fs(cachedManifestName example_env example_cache ''ab12'' \<mapsto>
       File ''d41d8cd98f00b204e9800998ecf8427e a.hd41d8cd98f00b204e9800998ecf8427e b.h'')"

text \<open>A cache of four entries of 400 bytes, last read in the order \<open>0a\<close>, \<open>0b\<close>, \<open>0c\<close>,
  \<open>0d\<close>, walked in another order, below a root directory that holds the two documents;
  and statistics whose \<open>CacheSize\<close> is the total, 1600.\<close>

definition example_entry :: "string \<Rightarrow> rat \<Rightarrow> walked" where
  "example_entry key atime =
     \<lparr>root = cacheEntryDir example_env example_cache key,
      files = [''object'', ''output.txt'', ''error.txt''],
      object_stat = \<lparr>st_atime = atime, st_size = 400\<rparr>\<rparr>"

definition example_walk :: "walked list" where
  "example_walk =
     [\<lparr>root = ''cache'', files = [''config.txt'', ''stats.txt''],
       object_stat = \<lparr>st_atime = 0, st_size = 0\<rparr>\<rparr>,
      example_entry ''0d'' 4, example_entry ''0b'' 2, example_entry ''0a'' 1,
      example_entry ''0c'' 3]"

definition example_stats :: PersistentJSONDict where
  "example_stats = setCacheSize (CacheStatistics_init example_env example_cache Map.empty) 1600"

text \<open>A cache of two entries whose object files have 900719925474099 and
  8106479329266896 bytes, the smaller one read last before the other, and statistics
  whose \<open>CacheSize\<close> is the total, \<open>2^53 + 3\<close>.\<close>

definition example_walk_large :: "walked list" where
  "example_walk_large =
     [\<lparr>root = cacheEntryDir example_env example_cache ''0b'', files = [''object''],
       object_stat = \<lparr>st_atime = 2, st_size = 8106479329266896\<rparr>\<rparr>,
      \<lparr>root = cacheEntryDir example_env example_cache ''0a'', files = [''object''],
       object_stat = \<lparr>st_atime = 1, st_size = 900719925474099\<rparr>\<rparr>]"

definition example_stats_large :: PersistentJSONDict where
  "example_stats_large =
     setCacheSize (CacheStatistics_init example_env example_cache Map.empty) 9007199254740995"


definition example_preprocessed :: string where
  "example_preprocessed =
     ''#line 1 '' @ [dquote] @ ''a.h'' @ [dquote, newline] @
     ''#line 1 '' @ [dquote] @ ''b.h'' @ [dquote, newline]"

definition example_popen :: "string list \<Rightarrow> string" where
  "example_popen cmd =
     (if cmd = [''cl.exe'', ''/E'', ''a.c''] then example_preprocessed else [])"

definition example_abspath :: "string \<Rightarrow> string" where
  "example_abspath p = p"

section \<open>Properties\<close>

lemma global_name_hasEntry: "global_name ''hasEntry'' = Inl NameError"
  by (simp add: global_name_def module_names_def)

text \<open>
  C1. In preprocessed mode (\<open>directmode\<close> false) \<open>hasHit\<close> does not return the presence
  of the entry's object file: for every key, and whether or not the object file exists,
  the lookup of the unbound name \<open>hasEntry\<close> raises \<open>NameError\<close>.
\<close>

theorem hasHit_preprocessed_NameError:
  "hasHit env (c\<lparr>directmode := False\<rparr>) fs md5 compilerBinary commandLine k = Inl NameError"
  by (simp add: hasHit_def global_name_hasEntry)

subsection \<open>Manifests\<close>

lemma example_writeManifest:
  "writeManifest example_env example_cache example_fs ''ab12'' example_manifest
     = Inr example_fs_written"
  by (simp add: writeManifest_def example_fs_def example_fs_written_def example_manifest_def
      manifest_text_def cacheEntryDir_def example_env_def example_cache_def backslash_def)

lemma example_getManifest:
  "getManifest example_env example_cache example_fs_written ''ab12'' =
     Inr [(''a.hd41d8cd98f00b204e9800998ecf8427e b.h'', ''d41d8cd98f00b204e9800998ecf8427e'')]"
  by (simp add: getManifest_def example_fs_written_def newline_def py_split1_def py_strip_def
      isspace_def)

text \<open>Without a manifest file \<open>checkManifest\<close> returns false.\<close>

lemma checkManifest_no_manifest:
  "fs (cachedManifestName env c k) = None \<Longrightarrow>
     checkManifest env c fs md5 compiler argv k = Inr False"
  by (simp add: checkManifest_def hasManifest_def os_path_exists_def)

text \<open>
  C2. In direct mode, a manifest of two records is written for the entry \<open>ab12\<close>; both
  recorded files still exist and hash to the recorded digest, and yet \<open>checkManifest\<close>
  returns false: the records were written without a line terminator, so the manifest
  reads back as one record whose path is no file.
\<close>

theorem checkManifest_unchanged_files_False:
  "writeManifest example_env example_cache example_fs ''ab12'' example_manifest
     = Inr example_fs_written \<and>
   hashFile example_md5 example_fs_written ''a.h'' = Inr ''d41d8cd98f00b204e9800998ecf8427e'' \<and>
   hashFile example_md5 example_fs_written ''b.h'' = Inr ''d41d8cd98f00b204e9800998ecf8427e'' \<and>
   checkManifest example_env example_cache example_fs_written example_md5 ''cl.exe''
     [''/c'', ''a.c''] ''ab12'' = Inr False"
proof -
  have hashes:
    "hashFile example_md5 example_fs_written ''a.h'' = Inr ''d41d8cd98f00b204e9800998ecf8427e''"
    "hashFile example_md5 example_fs_written ''b.h'' = Inr ''d41d8cd98f00b204e9800998ecf8427e''"
    by (simp_all add: hashFile_def example_fs_written_def example_fs_def example_md5_def
        cachedManifestName_def cachedCompilerManifestName_def cacheEntryDir_def
        example_env_def example_cache_def backslash_def)
  have "\<not> os_path_exists example_fs_written ''a.hd41d8cd98f00b204e9800998ecf8427e b.h''"
    by (simp add: os_path_exists_def example_fs_written_def example_fs_def
        cachedManifestName_def cachedCompilerManifestName_def cacheEntryDir_def
        example_env_def example_cache_def backslash_def)
  moreover have "hasManifest example_env example_cache example_fs_written ''ab12''"
    by (simp add: hasManifest_def os_path_exists_def example_fs_written_def)
  ultimately have
    "checkManifest example_env example_cache example_fs_written example_md5 ''cl.exe''
       [''/c'', ''a.c''] ''ab12'' = Inr False"
    by (simp add: checkManifest_def example_getManifest)
  then show ?thesis
    using hashes example_writeManifest by simp
qed

text \<open>
  C3. \<open>writeManifest\<close> of two records followed by \<open>getManifest\<close> does not give back the
  mapping of the two paths to their digests: it gives one record, whose path is the
  first path run together with the second record.
\<close>

theorem manifest_roundtrip_two_records:
  "writeManifest example_env example_cache example_fs ''ab12'' example_manifest
     = Inr example_fs_written \<and>
   getManifest example_env example_cache example_fs_written ''ab12'' =
     Inr [(''a.hd41d8cd98f00b204e9800998ecf8427e b.h'', ''d41d8cd98f00b204e9800998ecf8427e'')] \<and>
   getManifest example_env example_cache example_fs_written ''ab12'' \<noteq>
     Inr [(''a.h'', ''d41d8cd98f00b204e9800998ecf8427e''),
          (''b.h'', ''d41d8cd98f00b204e9800998ecf8427e'')]"
  by (simp add: example_writeManifest example_getManifest)

subsection \<open>Rounding to a double\<close>

lemma round53_id: "0 \<le> n \<Longrightarrow> n < 2 ^ 53 \<Longrightarrow> round53 n = n"
  by (simp add: round53_def bitlen_le_iff_power)

lemma round53_nonneg: "0 \<le> n \<Longrightarrow> 0 \<le> round53 n"
proof -
  assume n: "0 \<le> n"
  have "0 \<le> n div 2 ^ s" for s :: nat
    using n by (simp add: pos_imp_zdiv_nonneg_iff)
  then show ?thesis
    using n by (auto simp: round53_def Let_def intro!: mult_nonneg_nonneg add_nonneg_nonneg)
qed

text \<open>Rounding does not pass a representable number above.\<close>

lemma round53_le:
  assumes n: "0 \<le> n" and le: "n \<le> t * 2 ^ j" and t: "0 < t" "t < 2 ^ 53"
  shows "round53 n \<le> t * 2 ^ j"
proof (cases "bitlen n \<le> 53")
  case True
  then show ?thesis using le by (simp add: round53_def)
next
  case False
  define s where "s = nat (bitlen n - 53)"
  define q where "q = n div 2 ^ s"
  define r where "r = n mod 2 ^ s"
  have s1: "1 \<le> s" using False by (simp add: s_def)
  have npos: "0 < n" using False n by (cases "n = 0") auto
  have "nat (bitlen n - 1) = 52 + s" using False by (simp add: s_def)
  then have low: "2 ^ (52 + s) \<le> n" using bitlen_bounds[OF npos] by simp
  have sj: "s \<le> j"
  proof (rule ccontr)
    assume "\<not> s \<le> j"
    then have "Suc j \<le> s" by simp
    then have "(2::int) ^ Suc j \<le> 2 ^ s" by (rule power_increasing) simp
    then have "(2::int) ^ 52 * (2 * 2 ^ j) \<le> 2 ^ 52 * 2 ^ s"
      by (intro mult_left_mono) simp_all
    moreover have "t * 2 ^ j < 2 ^ 53 * (2::int) ^ j"
      using t by (intro mult_strict_right_mono) simp_all
    moreover have "(2::int) ^ 53 * 2 ^ j = 2 ^ 52 * (2 * 2 ^ j)" by simp
    ultimately have "t * 2 ^ j < 2 ^ 52 * (2::int) ^ s" by linarith
    then have "t * 2 ^ j < 2 ^ (52 + s)" by (simp only: power_add)
    then show False using low le by simp
  qed
  define T' where "T' = t * 2 ^ (j - s)"
  have T: "t * 2 ^ j = T' * 2 ^ s"
    using sj by (simp add: T'_def power_add[symmetric])
  have n_eq: "n = q * 2 ^ s + r"
    unfolding q_def r_def by (rule div_mult_mod_eq[symmetric])
  have r: "0 \<le> r" "r < 2 ^ s" by (simp_all add: r_def)
  have "q \<le> T'"
  proof (rule ccontr)
    assume "\<not> q \<le> T'"
    then have "T' + 1 \<le> q" by simp
    then have "(T' + 1) * 2 ^ s \<le> q * 2 ^ s" by simp
    then show False using le T n_eq r by (simp add: algebra_simps)
  qed
  have res: "round53 n = (if 2 ^ s < 2 * r \<or> (2 * r = 2 ^ s \<and> odd q) then q + 1 else q) * 2 ^ s"
    using False by (simp add: round53_def Let_def s_def q_def r_def)
  show ?thesis
  proof (cases "q = T'")
    case True
    then have "r = 0" using le T n_eq r by simp
    then show ?thesis using res True T by simp
  next
    case False
    with \<open>q \<le> T'\<close> have "q + 1 \<le> T'" by simp
    then have "(q + 1) * 2 ^ s \<le> T' * 2 ^ s" by (intro mult_right_mono) simp_all
    moreover have "q * 2 ^ s \<le> (q + 1) * 2 ^ s" by (intro mult_right_mono) simp_all
    then have "round53 n \<le> (q + 1) * 2 ^ s" using res by (simp split: if_splits)
    ultimately show ?thesis using T by linarith
  qed
qed

text \<open>Rounding goes down to a multiple of the spacing that is less than half a spacing
  below.\<close>

lemma round53_down:
  assumes big: "\<not> bitlen n \<le> 53" and dvd: "2 ^ nat (bitlen n - 53) dvd T"
      and le: "T \<le> n" and near: "2 * (n - T) < 2 ^ nat (bitlen n - 53)"
  shows "round53 n = T"
proof -
  define s where "s = nat (bitlen n - 53)"
  obtain T' where T: "T = T' * 2 ^ s" using dvd by (auto simp: s_def dvd_def mult.commute)
  have d: "0 \<le> n - T" "n - T < 2 ^ s" using le near by (simp_all add: s_def)
  have "n = T' * 2 ^ s + (n - T)" using T by simp
  then have q: "n div 2 ^ s = T'" and r: "n mod 2 ^ s = n - T"
    using d by (metis add.commute div_mult_self3 div_pos_pos_trivial add.left_neutral
        power_not_zero zero_neq_numeral,
        metis add.commute mod_mult_self3 mod_pos_pos_trivial)
  show ?thesis
    using big near by (simp add: round53_def Let_def s_def[symmetric] q r T)
qed

lemma times_09_bound:
  assumes m: "0 \<le> m" "m < 2 ^ 53"
  shows "times_09 m \<le> of_int (9 * m div 10 + 1)"
proof -
  define t where "t = 9 * m div 10 + 1"
  define N where "N = m * 8106479329266893"
  have t: "0 < t" "t < 2 ^ 53" using m by (simp_all add: t_def)
  have t10: "9 * m + 1 \<le> 10 * t" by (simp add: t_def)
  have N0: "0 \<le> N" using m by (simp add: N_def)
  have rd: "round_double N = round53 N"
    using N0 by (cases "N = 0") (simp_all add: round_double_def round53_def)
  have "round53 N \<le> t * 2 ^ 53"
  proof (cases "N \<le> t * 2 ^ 53")
    case True
    then show ?thesis using round53_le[OF N0 True t] by simp
  next
    case False
    then have gt: "t * 2 ^ 53 < N" by simp
    have m52: "2 ^ 52 < m" using gt t10 by (simp add: N_def)
    have "2 ^ 104 \<le> N" using m52 by (simp add: N_def)
    then have b1: "105 \<le> bitlen N" by (simp add: bitlen_ge_iff_power)
    have "N < 2 ^ 106" using m by (simp add: N_def)
    then have b2: "bitlen N \<le> 106" by (simp add: bitlen_le_iff_power)
    define s where "s = nat (bitlen N - 53)"
    have s: "52 \<le> s" "s \<le> 53" using b1 b2 by (simp_all add: s_def)
    have "(2::int) ^ s dvd 2 ^ 53" using s(2) by (rule le_imp_power_dvd)
    then have dvd: "2 ^ nat (bitlen N - 53) dvd t * 2 ^ 53" by (simp add: s_def)
    have "(2::int) ^ 52 \<le> 2 ^ s" using s by (intro power_increasing) simp_all
    moreover have "2 * (N - t * 2 ^ 53) < 2 ^ 52" using m t10 by (simp add: N_def)
    ultimately have near: "2 * (N - t * 2 ^ 53) < 2 ^ nat (bitlen N - 53)"
      by (simp add: s_def)
    have "round53 N = t * 2 ^ 53"
      using round53_down[OF _ dvd _ near] b1 gt by simp
    then show ?thesis by simp
  qed
  then have "of_int (round53 N) \<le> (of_int (t * 2 ^ 53) :: rat)"
    by (simp only: of_int_le_iff)
  then show ?thesis
    by (simp add: times_09_def rd N_def[symmetric] t_def[symmetric] divide_le_eq)
qed


lemma round_double_small: "0 \<le> m \<Longrightarrow> m < 2 ^ 53 \<Longrightarrow> round_double m = m"
  by (cases "m = 0") (simp_all add: round_double_def round53_id)

text \<open>An integer of magnitude up to \<open>2^1023\<close> converts to a float.\<close>

lemma float_of_int_in_range:
  assumes "\<bar>n\<bar> \<le> 2 ^ 1023"
  shows "float_of_int n = Inr (round_double n)"
proof -
  have le: "round53 \<bar>n\<bar> \<le> 1 * 2 ^ 1023"
    using assms by (intro round53_le) simp_all
  have nonneg: "0 \<le> round53 \<bar>n\<bar>" by (rule round53_nonneg) simp
  have "\<bar>round_double n\<bar> = \<bar>sgn n\<bar> * round53 \<bar>n\<bar>"
    using nonneg by (simp add: round_double_def abs_mult)
  also have "\<dots> \<le> 1 * round53 \<bar>n\<bar>"
    using nonneg by (intro mult_right_mono) (simp_all add: sgn_if)
  finally have "\<bar>round_double n\<bar> \<le> 2 ^ 1023" using le by simp
  moreover have "(2::int) ^ 1023 < 2 ^ 1024" by simp
  ultimately have "\<not> 2 ^ 1024 \<le> \<bar>round_double n\<bar>" by linarith
  then show ?thesis by (simp add: float_of_int_def)
qed

subsection \<open>Eviction\<close>

lemma insort_key_map:
  "insort_key f (g x) (map g xs) = map g (insort_key (\<lambda>y. f (g y)) x xs)"
  by (induction xs) auto

lemma sort_key_map: "sort_key f (map g xs) = map g (sort_key (\<lambda>y. f (g y)) xs)"
  by (induction xs) (auto simp: insort_key_map)

lemma clean_objectInfos_entries:
  "clean_objectInfos env w = map (entry_info env) (object_entries w)"
  by (simp add: clean_objectInfos_def object_entries_def entry_info_def)

lemma total_object_size_entries:
  "total_object_size w = sum_list (map entry_size (object_entries w))"
  by (simp add: total_object_size_def entry_size_def[abs_def])

text \<open>The loop removes the first \<open>n\<close> of the entries it is given, for some \<open>n\<close>, and
  stops early only below the effective maximum.\<close>

lemma clean_loop_prefix:
  assumes "\<forall>e \<in> set es. os_path_split_head env (os_path_join env (root e) ''object'') = root e"
  shows "\<exists>n \<le> length es.
     clean_loop env eff (map (entry_info env) es) w cs =
       (filter (\<lambda>e. root e \<notin> root ` set (take n es)) w,
        cs - sum_list (map entry_size (take n es)))
     \<and> (n = length es \<or> of_int (cs - sum_list (map entry_size (take n es))) < eff)"
  using assms
proof (induction es arbitrary: w cs)
  case Nil
  then show ?case by simp
next
  case (Cons e es)
  let ?w = "rmtree (root e) w" and ?cs = "cs - entry_size e"
  have dir: "os_path_split_head env (os_path_join env (root e) ''object'') = root e"
    using Cons.prems by simp
  show ?case
  proof (cases "of_int ?cs < eff")
    case True
    then have "clean_loop env eff (map (entry_info env) (e # es)) w cs = (?w, ?cs)"
      by (simp add: entry_info_def dir entry_size_def)
    then show ?thesis using True
      by (intro exI[of _ 1]) (simp add: rmtree_def)
  next
    case False
    from Cons.IH[of ?w ?cs] Cons.prems obtain n where n: "n \<le> length es"
      "clean_loop env eff (map (entry_info env) es) ?w ?cs =
         (filter (\<lambda>e. root e \<notin> root ` set (take n es)) ?w,
          ?cs - sum_list (map entry_size (take n es)))"
      "n = length es \<or> of_int (?cs - sum_list (map entry_size (take n es))) < eff"
      by auto
    have "clean_loop env eff (map (entry_info env) (e # es)) w cs =
            clean_loop env eff (map (entry_info env) es) ?w ?cs"
      using False by (simp add: entry_info_def dir entry_size_def)
    moreover have "filter (\<lambda>x. root x \<notin> root ` set (take n es)) ?w =
        filter (\<lambda>x. root x \<notin> root ` set (take (Suc n) (e # es))) w"
      by (auto simp: rmtree_def intro: filter_cong)
    moreover have "?cs - sum_list (map entry_size (take n es)) =
        cs - sum_list (map entry_size (take (Suc n) (e # es)))"
      by simp
    ultimately show ?thesis using n
      by (intro exI[of _ "Suc n"]) auto
  qed
qed

lemma filter_not_take_distinct:
  assumes "distinct xs"
  shows "filter (\<lambda>e. e \<notin> set (take n xs)) xs = drop n xs"
proof -
  let ?P = "\<lambda>e. e \<notin> set (take n xs)"
  have split: "filter ?P xs = filter ?P (take n xs) @ filter ?P (drop n xs)"
    by (metis append_take_drop_id filter_append)
  have "set (take n xs) \<inter> set (drop n xs) = {}"
    using assms by (metis append_take_drop_id distinct_append)
  then have "filter ?P (drop n xs) = drop n xs"
    by (auto simp: filter_id_conv)
  moreover have "filter ?P (take n xs) = []"
    by (simp add: filter_empty_conv)
  ultimately show ?thesis using split by simp
qed

lemma sum_list_filter_perm:
  fixes f :: "'a \<Rightarrow> int"
  assumes "mset xs = mset ys"
  shows "sum_list (map f (filter P xs)) = sum_list (map f (filter P ys))"
proof -
  have "mset (map f (filter P xs)) = mset (map f (filter P ys))"
    using assms by (metis mset_filter mset_map)
  then have "sum_mset (mset (map f (filter P xs))) = sum_mset (mset (map f (filter P ys)))"
    by simp
  then show ?thesis by (simp only: sum_mset_sum_list)
qed

lemma sum_list_perm:
  fixes f :: "'a \<Rightarrow> int"
  assumes "mset xs = mset ys"
  shows "sum_list (map f xs) = sum_list (map f ys)"
  using sum_list_filter_perm[OF assms, of f "\<lambda>_. True"] by simp

lemma roots_filter:
  assumes "distinct (map root w)" and "set T \<subseteq> set w"
  shows "filter (\<lambda>e. root e \<notin> root ` set T) w = filter (\<lambda>e. e \<notin> set T) w"
proof (rule filter_cong)
  fix e assume "e \<in> set w"
  moreover have "inj_on root (set w)" using assms(1) by (simp add: distinct_map)
  ultimately show "(root e \<notin> root ` set T) = (e \<notin> set T)"
    using assms(2) by (auto dest: inj_onD)
qed simp

lemma total_after_removal:
  assumes "distinct w" and S: "S = sort_key k (object_entries w)"
  shows "total_object_size (filter (\<lambda>e. e \<notin> set (take n S)) w) =
           total_object_size w - sum_list (map entry_size (take n S))"
proof -
  have dS: "distinct S" using assms by (simp add: object_entries_def)
  have perm: "mset (object_entries w) = mset S" using S by simp
  have "object_entries (filter (\<lambda>e. e \<notin> set (take n S)) w) =
          filter (\<lambda>e. e \<notin> set (take n S)) (object_entries w)"
    by (simp add: object_entries_def conj_commute)
  then have "total_object_size (filter (\<lambda>e. e \<notin> set (take n S)) w) =
          sum_list (map entry_size (filter (\<lambda>e. e \<notin> set (take n S)) S))"
    using sum_list_filter_perm[OF perm] by (simp add: total_object_size_entries)
  also have "\<dots> = sum_list (map entry_size (drop n S))"
    using dS by (simp add: filter_not_take_distinct)
  finally have a: "total_object_size (filter (\<lambda>e. e \<notin> set (take n S)) w) =
      sum_list (map entry_size (drop n S))" .
  have "total_object_size w = sum_list (map entry_size S)"
    using sum_list_perm[OF perm] by (simp add: total_object_size_entries)
  also have "\<dots> = sum_list (map entry_size (take n S)) + sum_list (map entry_size (drop n S))"
    by (metis append_take_drop_id map_append sum_list_append)
  finally show ?thesis using a by simp
qed

text \<open>Below \<open>2^53\<close> a size under the float product is at most nine tenths of the
  maximum.\<close>

lemma below_times_09:
  assumes m: "0 \<le> m" "m < 2 ^ 53" and less: "of_int cs < times_09 m"
  shows "of_int cs \<le> (9 / 10 :: rat) * of_int m"
proof -
  have "(of_int cs :: rat) < of_int (9 * m div 10 + 1)"
    using less times_09_bound[OF m] by simp
  then have "cs < 9 * m div 10 + 1" by (simp only: of_int_less_iff)
  then have "10 * cs \<le> 9 * m" by simp
  then have "(of_int (10 * cs) :: rat) \<le> of_int (9 * m)" by (simp only: of_int_le_iff)
  then show ?thesis by simp
qed

lemma example_dirs:
  "\<forall>e \<in> set (object_entries example_walk).
     os_path_split_head example_env (os_path_join example_env (root e) ''object'') = root e"
  by (simp add: object_entries_def example_walk_def example_entry_def example_env_def
      cacheEntryDir_def example_cache_def backslash_def)

lemma example_walk_total: "total_object_size example_walk = 1600"
  by (simp add: total_object_size_def object_entries_def example_walk_def example_entry_def)

lemma example_walk_distinct: "distinct (map root example_walk)"
  by (simp add: example_walk_def example_entry_def cacheEntryDir_def example_env_def
      example_cache_def)

lemma example_stats_size: "currentCacheSize example_stats = Inr 1600"
  by (simp add: example_stats_def currentCacheSize_def setCacheSize_def getitem_def setitem_def)

text \<open>The floats of the examples.\<close>

lemma example_floats:
  "float_of_int (- 1) = Inr (- 1)"
  "times_09 (- 1) = - (8106479329266893 / 2 ^ 53)"
  "float_of_int 9007199254740995 = Inr 9007199254740996"
  "times_09 9007199254740996 = 8106479329266897"
  "float_of_int (- (2 ^ 1024)) = Inl OverflowError"
  by code_simp+

lemma example_loop_negative:
  "clean_loop example_env (- (8106479329266893 / 2 ^ 53))
     (sort_key (\<lambda>t. st_atime (fst t)) (clean_objectInfos example_env example_walk))
     example_walk 1600
   = ([hd example_walk], 0)"
  by (simp add: clean_objectInfos_def example_walk_def example_entry_def rmtree_def
      example_env_def backslash_def cacheEntryDir_def example_cache_def)

lemma example_loop_large:
  "clean_loop example_env 8106479329266897
     (sort_key (\<lambda>t. st_atime (fst t)) (clean_objectInfos example_env example_walk_large))
     example_walk_large 9007199254740995
   = ([hd example_walk_large], 8106479329266896)"
  by (simp add: clean_objectInfos_def example_walk_large_def rmtree_def
      example_env_def backslash_def cacheEntryDir_def example_cache_def)

text \<open>\<open>clean\<close> raises \<open>OverflowError\<close>, and removes nothing, when the maximum is beyond
  the range of a float.\<close>

lemma clean_overflow_example:
  "clean example_env example_walk example_stats (- (2 ^ 1024)) = Inl OverflowError"
  unfolding clean_def example_stats_size using example_floats(5) by simp

text \<open>
  C4, as amended. \<open>clean\<close> does nothing when the recorded cache size is below the
  maximum. Otherwise, when the recorded size is the total size of the stored object
  files and the maximum is at most \<open>2^1023\<close> in magnitude (so that it converts to a
  float), the entries it removes are the first \<open>n\<close> of the entries sorted by ascending
  access time, for some \<open>n\<close>, and the recorded size becomes the total size of the
  entries that remain; when moreover the maximum is not negative and below \<open>2^53\<close>,
  that size is at most nine tenths of the maximum. The walk lists every directory once,
  and for the directory \<open>root\<close> of an entry the first component of
  \<open>os.path.split(os.path.join(root, "object"))\<close> is \<open>root\<close>.
\<close>

theorem clean_lru_prefix:
  assumes dist: "distinct (map root w)"
      and dirs: "\<forall>e \<in> set (object_entries w).
                   os_path_split_head env (os_path_join env (root e) ''object'') = root e"
      and cur: "currentCacheSize stats = Inr currentSize"
  shows "(currentSize < maximumSize \<longrightarrow> clean env w stats maximumSize = Inr (w, stats)) \<and>
         (maximumSize \<le> currentSize \<and> currentSize = total_object_size w
            \<and> \<bar>maximumSize\<bar> \<le> 2 ^ 1023 \<longrightarrow>
            (\<exists>n. let w' = filter (\<lambda>e. e \<notin> set (take n
                              (sort_key (\<lambda>e. st_atime (object_stat e)) (object_entries w)))) w
                 in clean env w stats maximumSize
                      = Inr (w', setCacheSize stats (total_object_size w'))
                    \<and> (0 \<le> maximumSize \<and> maximumSize < 2 ^ 53 \<longrightarrow>
                         of_int (total_object_size w') \<le> (9 / 10 :: rat) * of_int maximumSize)))"
proof (intro conjI impI)
  assume "currentSize < maximumSize"
  then show "clean env w stats maximumSize = Inr (w, stats)"
    using cur by (simp add: clean_def)
next
  assume a: "maximumSize \<le> currentSize \<and> currentSize = total_object_size w
               \<and> \<bar>maximumSize\<bar> \<le> 2 ^ 1023"
  define S where "S = sort_key (\<lambda>e. st_atime (object_stat e)) (object_entries w)"
  define eff where "eff = times_09 (round_double maximumSize)"
  have float: "float_of_int maximumSize = Inr (round_double maximumSize)"
    using a by (intro float_of_int_in_range) simp
  have sorted_infos:
    "sort_key (\<lambda>t. st_atime (fst t)) (clean_objectInfos env w) = map (entry_info env) S"
    by (simp add: clean_objectInfos_entries sort_key_map S_def entry_info_def)
  have dirs_S: "\<forall>e \<in> set S. os_path_split_head env (os_path_join env (root e) ''object'') = root e"
    using dirs by (simp add: S_def)
  obtain n where n: "n \<le> length S"
    "clean_loop env eff (map (entry_info env) S) w currentSize =
       (filter (\<lambda>e. root e \<notin> root ` set (take n S)) w,
        currentSize - sum_list (map entry_size (take n S)))"
    "n = length S \<or> of_int (currentSize - sum_list (map entry_size (take n S))) < eff"
    using clean_loop_prefix[OF dirs_S, of eff w currentSize] by blast
  let ?w' = "filter (\<lambda>e. e \<notin> set (take n S)) w"
  have sub: "set (take n S) \<subseteq> set w"
    using set_take_subset[of n S] by (auto simp: S_def object_entries_def)
  have w': "filter (\<lambda>e. root e \<notin> root ` set (take n S)) w = ?w'"
    using roots_filter[OF dist sub] .
  have dw: "distinct w" using dist by (simp add: distinct_map)
  have tot: "total_object_size ?w' = currentSize - sum_list (map entry_size (take n S))"
    using total_after_removal[OF dw S_def, of n] a by simp
  have "clean env w stats maximumSize =
          Inr (fst (clean_loop env eff (map (entry_info env) S) w currentSize),
               setCacheSize stats (snd (clean_loop env eff (map (entry_info env) S) w currentSize)))"
    using a cur by (simp add: clean_def float sorted_infos Let_def eff_def)
  then have res:
    "clean env w stats maximumSize = Inr (?w', setCacheSize stats (total_object_size ?w'))"
    by (simp add: n(2) w' tot)
  have bound: "of_int (total_object_size ?w') \<le> (9 / 10 :: rat) * of_int maximumSize"
    if range: "0 \<le> maximumSize \<and> maximumSize < 2 ^ 53"
  proof (cases "n = length S")
    case True
    have "total_object_size w = sum_list (map entry_size S)"
      using sum_list_perm[of "object_entries w" S entry_size]
      by (simp add: S_def total_object_size_entries)
    then have "total_object_size ?w' = 0" using tot a True by simp
    then show ?thesis using range by simp
  next
    case False
    have "eff = times_09 maximumSize"
      using range by (simp add: eff_def round_double_small)
    then have "of_int (total_object_size ?w') < times_09 maximumSize"
      using False n(3) tot by simp
    then show ?thesis using range by (intro below_times_09) simp_all
  qed
  show "\<exists>n. let w' = filter (\<lambda>e. e \<notin> set (take n
                              (sort_key (\<lambda>e. st_atime (object_stat e)) (object_entries w)))) w
                 in clean env w stats maximumSize
                      = Inr (w', setCacheSize stats (total_object_size w'))
                    \<and> (0 \<le> maximumSize \<and> maximumSize < 2 ^ 53 \<longrightarrow>
                         of_int (total_object_size w') \<le> (9 / 10 :: rat) * of_int maximumSize)"
    using res bound unfolding S_def Let_def by (intro exI[of _ n]) simp
qed

theorem clean_lru_prefix_witness:
  "distinct (map root example_walk) \<and>
   list_all (\<lambda>e. os_path_split_head example_env (os_path_join example_env (root e) ''object'')
                  = root e) (object_entries example_walk) \<and>
   currentCacheSize example_stats = Inr 1600 \<and>
   (1600::int) < 2000 \<and>
   clean example_env example_walk example_stats 2000 = Inr (example_walk, example_stats) \<and>
   (1000::int) \<le> 1600 \<and> 1600 = total_object_size example_walk \<and> \<bar>1000::int\<bar> \<le> 2 ^ 1023 \<and>
   (0::int) \<le> 1000 \<and> (1000::int) < 2 ^ 53 \<and>
   (\<exists>n. let w' = filter (\<lambda>e. e \<notin> set (take n
                     (sort_key (\<lambda>e. st_atime (object_stat e)) (object_entries example_walk))))
                   example_walk
         in clean example_env example_walk example_stats 1000
              = Inr (w', setCacheSize example_stats (total_object_size w'))
            \<and> of_int (total_object_size w') \<le> (9 / 10 :: rat) * of_int 1000)"
  using clean_lru_prefix[OF example_walk_distinct example_dirs example_stats_size, of 1000]
        clean_lru_prefix[OF example_walk_distinct example_dirs example_stats_size, of 2000]
        example_dirs
  by (simp add: example_walk_total example_walk_distinct example_stats_size list_all_iff)

text \<open>
  C4 as stated fails in two ways. For a negative maximum: the recorded size 1600 is the
  total of the object files, \<open>clean\<close> with maximum \<open>-1\<close> removes every entry and records
  the size 0, which is not at most \<open>0.9 \<times> (-1)\<close>. For a maximum of \<open>2^53 + 3\<close>: the
  recorded size \<open>2^53 + 3\<close> is the total of the two object files, the float product is
  8106479329266897, \<open>clean\<close> stops after the first entry and records the size
  8106479329266896, which is above \<open>0.9 \<times> (2^53 + 3)\<close>.
\<close>

theorem clean_bound_counterexample:
  "currentCacheSize example_stats = Inr (total_object_size example_walk) \<and>
   \<not> (total_object_size example_walk < - 1) \<and>
   clean example_env example_walk example_stats (- 1)
     = Inr ([hd example_walk], setCacheSize example_stats 0) \<and>
   currentCacheSize (setCacheSize example_stats 0) = Inr 0 \<and>
   \<not> (of_int 0 \<le> (9 / 10 :: rat) * of_int (- 1)) \<and>
   currentCacheSize example_stats_large = Inr (total_object_size example_walk_large) \<and>
   \<not> (total_object_size example_walk_large < 9007199254740995) \<and>
   clean example_env example_walk_large example_stats_large 9007199254740995
     = Inr ([hd example_walk_large], setCacheSize example_stats_large 8106479329266896) \<and>
   currentCacheSize (setCacheSize example_stats_large 8106479329266896)
     = Inr 8106479329266896 \<and>
   \<not> (of_int 8106479329266896 \<le> (9 / 10 :: rat) * of_int 9007199254740995)"
proof -
  have "clean example_env example_walk example_stats (- 1)
          = Inr ([hd example_walk], setCacheSize example_stats 0)"
    unfolding clean_def Let_def example_stats_size
    using example_loop_negative by (simp add: example_floats)
  moreover have size_large: "currentCacheSize example_stats_large = Inr 9007199254740995"
    by (simp add: example_stats_large_def currentCacheSize_def setCacheSize_def getitem_def
        setitem_def)
  moreover have "clean example_env example_walk_large example_stats_large 9007199254740995
          = Inr ([hd example_walk_large], setCacheSize example_stats_large 8106479329266896)"
    unfolding clean_def Let_def size_large
    using example_loop_large by (simp add: example_floats)
  moreover have "total_object_size example_walk_large = 9007199254740995"
    by (simp add: total_object_size_def object_entries_def example_walk_large_def)
  moreover have "currentCacheSize (setCacheSize s v) = Inr v" for s v
    by (simp add: currentCacheSize_def setCacheSize_def getitem_def setitem_def)
  ultimately show ?thesis
    by (simp add: example_walk_total example_stats_size)
qed

subsection \<open>Command line analysis\<close>

lemma parse_Zi_Yu:
  "parseCommandLine [''/c'', ''/Zi'', ''/Yustdafx.h'', ''a.cpp'']
     = Inr ([''c'' \<mapsto> [], ''Zi'' \<mapsto> [], ''Yu'' \<mapsto> [''stdafx.h'']], [], [''a.cpp''])"
  by (simp add: parseCommandLine_def optionsWithParameter_def append_value_def)

lemma parse_Yu_Tp:
  "parseCommandLine [''/c'', ''/Yustdafx.h'', ''/Tpa.cpp'', ''b.cpp'']
     = Inr ([''c'' \<mapsto> [], ''Yu'' \<mapsto> [''stdafx.h''], ''Tp'' \<mapsto> [''a.cpp'']], [], [''b.cpp''])"
  by (simp add: parseCommandLine_def optionsWithParameter_def append_value_def)

lemma parse_Tp:
  "parseCommandLine [''/c'', ''/Tpa.cpp'', ''b.cpp'']
     = Inr ([''c'' \<mapsto> [], ''Tp'' \<mapsto> [''a.cpp'']], [], [''b.cpp''])"
  by (simp add: parseCommandLine_def optionsWithParameter_def append_value_def)

lemma find_Zi: "find (\<lambda>opt. take (length opt) ''Zi'' = opt) optionsWithParameter = None"
  by (simp add: optionsWithParameter_def)

lemma append_value_keeps: "opts k \<noteq> None \<Longrightarrow> append_value opts key v k \<noteq> None"
  by (simp add: append_value_def)

text \<open>
  When no argument is empty and none is a bare parametrised option, the loop reads every
  token as an argument of its own: it returns, and a token \<open>/Zi\<close> or \<open>-Zi\<close> leaves
  \<open>Zi\<close> among the options. Every branch goes on with the rest of the arguments, in a
  state that has \<open>Zi\<close> among the options if the state before had it or the argument
  is the token.
\<close>

lemma parseCommandLine_loop_Zi:
  assumes "\<forall>arg \<in> set args. arg \<noteq> [] \<and> \<not> bare_parametrised arg"
  shows "\<exists>opts' rf' srcs'.
           parseCommandLine_loop opts rf srcs args = Inr (opts', rf', srcs') \<and>
           (opts ''Zi'' \<noteq> None \<or> ''/Zi'' \<in> set args \<or> ''-Zi'' \<in> set args
              \<longrightarrow> opts' ''Zi'' \<noteq> None)"
  using assms
proof (induction args arbitrary: opts rf srcs)
  case Nil
  then show ?case by simp
next
  case (Cons arg args)
  from Cons.prems obtain a0 arg1 where arg: "arg = a0 # arg1"
    by (cases arg) auto
  have rest: "\<forall>arg \<in> set args. arg \<noteq> [] \<and> \<not> bare_parametrised arg"
    using Cons.prems by simp
  have nb: "\<not> bare_parametrised (a0 # arg1)" using Cons.prems arg by simp
  have "\<exists>opts1 rf1 srcs1.
          parseCommandLine_loop opts rf srcs (arg # args) =
            parseCommandLine_loop opts1 rf1 srcs1 args \<and>
          (opts ''Zi'' \<noteq> None \<or> arg = ''/Zi'' \<or> arg = ''-Zi'' \<longrightarrow> opts1 ''Zi'' \<noteq> None)"
  proof (cases "a0 = CHR ''/'' \<or> a0 = CHR ''-''")
    case True
    show ?thesis
    proof (cases "find (\<lambda>opt. take (length opt) arg1 = opt) optionsWithParameter")
      case None
      have "parseCommandLine_loop opts rf srcs (arg # args) =
              parseCommandLine_loop (opts(arg1 \<mapsto> [])) rf srcs args"
        using True None arg by simp
      moreover have "opts ''Zi'' \<noteq> None \<or> arg = ''/Zi'' \<or> arg = ''-Zi''
                       \<longrightarrow> (opts(arg1 \<mapsto> [])) ''Zi'' \<noteq> None"
        using arg by auto
      ultimately show ?thesis by blast
    next
      case (Some opt)
      have long: "length (a0 # arg1) > length opt + 1"
        using nb True Some by (simp add: bare_parametrised_def)
      have "parseCommandLine_loop opts rf srcs (arg # args) =
              parseCommandLine_loop
                (append_value opts opt (drop (length opt + 1) (a0 # arg1))) rf srcs args"
        using True Some arg long by simp
      moreover have "arg1 \<noteq> ''Zi''" using Some find_Zi by auto
      then have "arg \<noteq> ''/Zi''" "arg \<noteq> ''-Zi''" using arg by auto
      ultimately show ?thesis using append_value_keeps by blast
    qed
  next
    case False
    then have notZi: "arg \<noteq> ''/Zi''" "arg \<noteq> ''-Zi''" using arg by auto
    show ?thesis
    proof (cases "a0 = CHR ''@''")
      case True
      have "parseCommandLine_loop opts rf srcs (arg # args) =
              parseCommandLine_loop opts arg1 srcs args"
        using True arg by simp
      then show ?thesis using notZi by blast
    next
      case at: False
      have "parseCommandLine_loop opts rf srcs (arg # args) =
              parseCommandLine_loop opts rf (srcs @ [arg]) args"
        using False at arg by simp
      then show ?thesis using notZi by blast
    qed
  qed
  then obtain opts1 rf1 srcs1 where
    step: "parseCommandLine_loop opts rf srcs (arg # args) =
             parseCommandLine_loop opts1 rf1 srcs1 args"
    and keep: "opts ''Zi'' \<noteq> None \<or> arg = ''/Zi'' \<or> arg = ''-Zi'' \<longrightarrow> opts1 ''Zi'' \<noteq> None"
    by blast
  from Cons.IH[OF rest, of opts1 rf1 srcs1] obtain opts' rf' srcs' where
    r: "parseCommandLine_loop opts1 rf1 srcs1 args = Inr (opts', rf', srcs')"
    and z: "opts1 ''Zi'' \<noteq> None \<or> ''/Zi'' \<in> set args \<or> ''-Zi'' \<in> set args
              \<longrightarrow> opts' ''Zi'' \<noteq> None"
    by blast
  have "opts ''Zi'' \<noteq> None \<or> ''/Zi'' \<in> set (arg # args) \<or> ''-Zi'' \<in> set (arg # args)
          \<longrightarrow> opts' ''Zi'' \<noteq> None"
    using keep z by auto
  then show ?case unfolding step using r by blast
qed

text \<open>A token \<open>/Zi\<close> after a bare parametrised option is that option's value, not an
  option: the invocation is classified as one to cache.\<close>

lemma analyzeCommandLine_Zi_as_value:
  "analyzeCommandLine example_env [''/c'', ''/MP'', ''/Zi'', ''a.cpp'']
     = Inr (Ok, SourceFile ''a.cpp'', Some (''C:'' @ [backslash] @ ''a.obj''))"
  by (simp add: analyzeCommandLine_def parseCommandLine_def optionsWithParameter_def
      append_value_def example_env_def strip_quotes_def dquote_def backslash_def)

text \<open>
  C5, as amended. For a command line that parses: when \<open>Zi\<close> is among the parsed
  options, with \<open>Yu\<close> among them or not, the result is \<open>ExternalDebugInfo\<close>; when
  \<open>Zi\<close> is not among them and \<open>Yu\<close> is, it is \<open>CalledWithPch\<close>, whatever the source
  files; and when neither is, \<open>c\<close> is and \<open>link\<close> is not, \<open>Tp\<close> or \<open>Tc\<close> among the
  options and more than one source file (the values of \<open>Tp\<close> and \<open>Tc\<close> counted) give
  \<open>MultipleSourceFilesComplex\<close>. A command line of non-empty arguments none of which is
  a bare parametrised option parses, and on it a token \<open>/Zi\<close> or \<open>-Zi\<close> is among the
  parsed options, so that the result is \<open>ExternalDebugInfo\<close>.
\<close>

theorem analyzeCommandLine_precedence:
  "((\<forall>arg \<in> set cmdline. arg \<noteq> [] \<and> \<not> bare_parametrised arg) \<and>
    (''/Zi'' \<in> set cmdline \<or> ''-Zi'' \<in> set cmdline) \<longrightarrow>
      analyzeCommandLine env cmdline = Inr (ExternalDebugInfo, NoSource, None)) \<and>
   (parseCommandLine cmdline = Inr (opts, responseFile, sourceFiles) \<longrightarrow>
      (opts ''Zi'' \<noteq> None \<longrightarrow>
         analyzeCommandLine env cmdline = Inr (ExternalDebugInfo, NoSource, None)) \<and>
      (opts ''Zi'' = None \<and> opts ''Yu'' \<noteq> None \<longrightarrow>
         analyzeCommandLine env cmdline = Inr (CalledWithPch, NoSource, None)) \<and>
      (opts ''Zi'' = None \<and> opts ''Yu'' = None \<and> opts ''link'' = None \<and> opts ''c'' \<noteq> None
         \<and> (opts ''Tp'' \<noteq> None \<or> opts ''Tc'' \<noteq> None)
         \<and> length (sourceFiles @ (case opts ''Tp'' of None \<Rightarrow> [] | Some vs \<Rightarrow> vs)
                     @ (case opts ''Tc'' of None \<Rightarrow> [] | Some vs \<Rightarrow> vs)) > 1 \<longrightarrow>
         analyzeCommandLine env cmdline = Inr (MultipleSourceFilesComplex, NoSource, None)))"
proof (intro conjI impI)
  assume a: "(\<forall>arg \<in> set cmdline. arg \<noteq> [] \<and> \<not> bare_parametrised arg) \<and>
             (''/Zi'' \<in> set cmdline \<or> ''-Zi'' \<in> set cmdline)"
  then obtain opts' rf' srcs' where
    "parseCommandLine cmdline = Inr (opts', rf', srcs')" "opts' ''Zi'' \<noteq> None"
    using parseCommandLine_loop_Zi[of cmdline Map.empty "[]" "[]"]
    by (auto simp: parseCommandLine_def)
  then show "analyzeCommandLine env cmdline = Inr (ExternalDebugInfo, NoSource, None)"
    by (simp add: analyzeCommandLine_def)
next
  assume "parseCommandLine cmdline = Inr (opts, responseFile, sourceFiles)"
    and "opts ''Zi'' \<noteq> None"
  then show "analyzeCommandLine env cmdline = Inr (ExternalDebugInfo, NoSource, None)"
    by (simp add: analyzeCommandLine_def)
next
  assume "parseCommandLine cmdline = Inr (opts, responseFile, sourceFiles)"
    and "opts ''Zi'' = None \<and> opts ''Yu'' \<noteq> None"
  then show "analyzeCommandLine env cmdline = Inr (CalledWithPch, NoSource, None)"
    by (simp add: analyzeCommandLine_def)
next
  assume "parseCommandLine cmdline = Inr (opts, responseFile, sourceFiles)"
    and "opts ''Zi'' = None \<and> opts ''Yu'' = None \<and> opts ''link'' = None \<and> opts ''c'' \<noteq> None
         \<and> (opts ''Tp'' \<noteq> None \<or> opts ''Tc'' \<noteq> None)
         \<and> length (sourceFiles @ (case opts ''Tp'' of None \<Rightarrow> [] | Some vs \<Rightarrow> vs)
                     @ (case opts ''Tc'' of None \<Rightarrow> [] | Some vs \<Rightarrow> vs)) > 1"
  then show "analyzeCommandLine env cmdline = Inr (MultipleSourceFilesComplex, NoSource, None)"
    by (auto simp: analyzeCommandLine_def Let_def split: option.splits)
qed

lemma example_not_bare:
  "\<forall>arg \<in> set [''/c'', ''-Zi'', ''a.cpp'']. arg \<noteq> [] \<and> \<not> bare_parametrised arg"
  by (simp add: bare_parametrised_def optionsWithParameter_def)

theorem analyzeCommandLine_precedence_witness:
  "list_all (\<lambda>arg. arg \<noteq> [] \<and> \<not> bare_parametrised arg) [''/c'', ''-Zi'', ''a.cpp''] \<and>
   analyzeCommandLine example_env [''/c'', ''-Zi'', ''a.cpp'']
     = Inr (ExternalDebugInfo, NoSource, None) \<and>
   analyzeCommandLine example_env [''/c'', ''/Zi'', ''/Yustdafx.h'', ''a.cpp'']
     = Inr (ExternalDebugInfo, NoSource, None) \<and>
   analyzeCommandLine example_env [''/c'', ''/Yustdafx.h'', ''/Tpa.cpp'', ''b.cpp'']
     = Inr (CalledWithPch, NoSource, None) \<and>
   analyzeCommandLine example_env [''/c'', ''/Tpa.cpp'', ''b.cpp'']
     = Inr (MultipleSourceFilesComplex, NoSource, None)"
  using analyzeCommandLine_precedence[where cmdline = "[''/c'', ''-Zi'', ''a.cpp'']"
          and env = example_env]
        analyzeCommandLine_precedence[where cmdline = "[''/c'', ''/Zi'', ''/Yustdafx.h'', ''a.cpp'']"
          and env = example_env
          and opts = "[''c'' \<mapsto> [], ''Zi'' \<mapsto> [], ''Yu'' \<mapsto> [''stdafx.h'']]"
          and responseFile = "[]" and sourceFiles = "[''a.cpp'']"]
        analyzeCommandLine_precedence[where cmdline = "[''/c'', ''/Yustdafx.h'', ''/Tpa.cpp'', ''b.cpp'']"
          and env = example_env
          and opts = "[''c'' \<mapsto> [], ''Yu'' \<mapsto> [''stdafx.h''], ''Tp'' \<mapsto> [''a.cpp'']]"
          and responseFile = "[]" and sourceFiles = "[''b.cpp'']"]
        analyzeCommandLine_precedence[where cmdline = "[''/c'', ''/Tpa.cpp'', ''b.cpp'']"
          and env = example_env
          and opts = "[''c'' \<mapsto> [], ''Tp'' \<mapsto> [''a.cpp'']]"
          and responseFile = "[]" and sourceFiles = "[''b.cpp'']"]
        example_not_bare
  by (simp add: parse_Zi_Yu parse_Yu_Tp parse_Tp)

text \<open>
  C5 as stated fails: on \<open>/c /Zi /Yustdafx.h a.cpp\<close> both \<open>Zi\<close> and \<open>Yu\<close> are among the
  parsed options, and the result is \<open>ExternalDebugInfo\<close>, not \<open>CalledWithPch\<close>.
\<close>

theorem analyzeCommandLine_Zi_Yu_counterexample:
  "parseCommandLine [''/c'', ''/Zi'', ''/Yustdafx.h'', ''a.cpp'']
     = Inr ([''c'' \<mapsto> [], ''Zi'' \<mapsto> [], ''Yu'' \<mapsto> [''stdafx.h'']], [], [''a.cpp'']) \<and>
   [''c'' \<mapsto> [], ''Zi'' \<mapsto> [], ''Yu'' \<mapsto> [''stdafx.h'']] ''Zi'' \<noteq> None \<and>
   [''c'' \<mapsto> [], ''Zi'' \<mapsto> [], ''Yu'' \<mapsto> [''stdafx.h'' :: string]] ''Yu'' \<noteq> None \<and>
   analyzeCommandLine example_env [''/c'', ''/Zi'', ''/Yustdafx.h'', ''a.cpp'']
     = Inr (ExternalDebugInfo, NoSource, None) \<and>
   ExternalDebugInfo \<noteq> CalledWithPch"
  by (simp add: analyzeCommandLine_def parse_Zi_Yu)

text \<open>
  C10. \<open>parseCommandLine\<close> does not return a result for every list of non-empty
  arguments: with the parametrised option \<open>/Fo\<close> (or \<open>/D\<close>) as the last token and no
  value in the token, the read of \<open>cmdline[i+1]\<close> is past the end of the list and
  raises \<open>IndexError\<close>.
\<close>

theorem parseCommandLine_trailing_option_IndexError:
  "parseCommandLine [''/c'', ''a.cpp'', ''/Fo''] = Inl IndexError \<and>
   parseCommandLine [''/c'', ''a.cpp'', ''/D''] = Inl IndexError"
  by (simp add: parseCommandLine_def optionsWithParameter_def append_value_def)

subsection \<open>Job count\<close>

text \<open>
  C6. A bare \<open>/MP\<close> does not yield the number of logical CPUs: the pattern asks for at
  least one digit, so a bare \<open>/MP\<close> is not among the matched switches. Alone it gives
  1, and after \<open>/MP4\<close> it leaves 4 in force, on a machine of 8 CPUs.
\<close>

theorem jobCount_bare_MP:
  "jobCount None (Some 8) [''/MP''] = Inr 1 \<and>
   jobCount None (Some 8) [''/MP4'', ''/MP''] = Inr 4"
  by (simp add: jobCount_def mp_switch_match_def isdigit_def py_int_def py_strip_def
      isspace_def digits_value_def)

subsection \<open>Configuration\<close>

text \<open>
  C8, as amended. When \<open>config.txt\<close> is absent, or holds no key \<open>MaximumCacheSize\<close>, a
  freshly constructed Configuration reports \<open>maximumCacheSize()\<close> equal to
  1,048,576,000 bytes (\<open>1024 \<times> 1024 \<times> 1000\<close>).
\<close>

theorem maximumCacheSize_default:
  assumes "case docs (os_path_join env (dir c) ''config.txt'') of
             None \<Rightarrow> True
           | Some d \<Rightarrow> d ''MaximumCacheSize'' = None"
  shows "maximumCacheSize (Configuration_init env c docs) = Inr 1048576000"
  using assms
  by (simp add: maximumCacheSize_def Configuration_init_def PersistentJSONDict_init_def
      defaultValues_def materialize_def contains_def setitem_def getitem_def
      split: option.splits)

theorem maximumCacheSize_default_witness:
  "maximumCacheSize (Configuration_init example_env example_cache Map.empty) = Inr 1048576000 \<and>
   maximumCacheSize (Configuration_init example_env example_cache
      [os_path_join example_env (dir example_cache) ''config.txt'' \<mapsto> [''Other'' \<mapsto> 7]]) = Inr 1048576000"
  using maximumCacheSize_default[where docs = Map.empty and env = example_env
          and c = example_cache]
        maximumCacheSize_default[where docs =
            "[os_path_join example_env (dir example_cache) ''config.txt'' \<mapsto> [''Other'' \<mapsto> 7]]"
          and env = example_env and c = example_cache]
  by simp

text \<open>C8 as stated fails: with no \<open>config.txt\<close> the reported maximum is 1,048,576,000,
  not 1,073,741,824.\<close>

theorem maximumCacheSize_default_counterexample:
  "maximumCacheSize (Configuration_init example_env example_cache Map.empty) = Inr 1048576000 \<and>
   maximumCacheSize (Configuration_init example_env example_cache Map.empty) \<noteq> Inr 1073741824"
  by (simp add: maximumCacheSize_def Configuration_init_def PersistentJSONDict_init_def
      defaultValues_def materialize_def contains_def setitem_def getitem_def)

subsection \<open>Include discovery\<close>

lemma example_directives:
  "List.map_filter ldirective_match (py_split newline example_preprocessed) = [''a.h'', ''b.h'']"
  by (simp add: example_preprocessed_def newline_def dquote_def List.map_filter_simps
      ldirective_match_def isspace_def isdigit_def)

lemma example_header_hashes:
  "hashFile example_md5 example_fs ''a.h'' = Inr ''d41d8cd98f00b204e9800998ecf8427e''"
  "hashFile example_md5 example_fs ''b.h'' = Inr ''d41d8cd98f00b204e9800998ecf8427e''"
  by (simp_all add: hashFile_def example_fs_def example_md5_def)

text \<open>
  C9. The list returned by \<open>getDirectIncludeFiles\<close> does not hold path strings only: for
  a preprocessor output with two \<open>#line\<close> directives it holds the two paths and, after
  them, a tuple of digest and path for each; the loop of the miss path then applies
  \<open>hashFile\<close> to a tuple and raises \<open>TypeError\<close>.
\<close>

theorem getDirectIncludeFiles_returns_tuples:
  "getDirectIncludeFiles example_popen example_abspath example_md5 example_fs ''cl.exe''
     [''/c'', ''a.c'']
     = Inr [Str ''a.h'', Str ''b.h'',
            Tuple ''d41d8cd98f00b204e9800998ecf8427e'' ''a.h'',
            Tuple ''d41d8cd98f00b204e9800998ecf8427e'' ''b.h''] \<and>
   main_manifest example_md5 example_fs
     [Str ''a.h'', Str ''b.h'',
      Tuple ''d41d8cd98f00b204e9800998ecf8427e'' ''a.h'',
      Tuple ''d41d8cd98f00b204e9800998ecf8427e'' ''b.h''] = Inl TypeError"
  by (simp add: getDirectIncludeFiles_def example_popen_def example_abspath_def
      example_directives example_header_hashes hashFile_item_def)

subsection \<open>Invocations that cannot be cached\<close>





end
